theory Spec2Isabelle
  imports Main
begin

section \<open>Go strings and the library calls the initiator layer makes\<close>

text \<open>
  A Go string is a sequence of bytes, modelled as \<open>string\<close> (a list of 8-bit
  characters). The three functions of package \<open>strings\<close> the code calls are written
  out as the left-to-right scans they are.

  \<open>strings.Fields\<close> splits around runs of white space, white space being the runes
  of \<open>unicode.IsSpace\<close>: the six ASCII bytes tab, line feed, vertical tab, form feed,
  carriage return and space, and the runes U+0085, U+00A0, U+1680, U+2000 to U+200A,
  U+2028, U+2029, U+202F, U+205F and U+3000 in their UTF-8 encoding. (On a string of
  ASCII bytes only, Go takes a fast path that knows the six bytes; the general path
  agrees with it there.) \<open>spaceWidth\<close> is the number of bytes of the white-space rune
  a string starts with, or 0.

  Go decodes the string rune by rune, and a byte that starts no valid encoding counts
  as a rune of one byte that is not white space. The scan below goes byte by byte
  instead. The fields are the same: every white-space encoding starts with a byte
  below 0x80 or a lead byte (0xC2, 0xE1, 0xE2, 0xE3), a byte of these never lies inside
  a valid multi-byte encoding (whose later bytes are all in 0x80 to 0xBF), so the
  decoder starts a rune at every place where the scan finds white space, and the later
  bytes of a rune that is not white space start no white space themselves.
\<close>

definition asciiSpace :: "char \<Rightarrow> bool" where
  "asciiSpace c = (c = CHR 0x09 \<or> c = CHR 0x0A \<or> c = CHR 0x0B \<or> c = CHR 0x0C
                   \<or> c = CHR 0x0D \<or> c = CHR 0x20)"

definition spaceWidth :: "string \<Rightarrow> nat" where
  "spaceWidth s =
     (case s of
        [] \<Rightarrow> 0
      | c # cs \<Rightarrow>
          if asciiSpace c then 1
          else if c = CHR 0xC2 then
            (if take 1 cs = [CHR 0x85] \<or> take 1 cs = [CHR 0xA0] then 2 else 0)
          else if c = CHR 0xE1 then
            (if take 2 cs = [CHR 0x9A, CHR 0x80] then 3 else 0)
          else if c = CHR 0xE2 then
            (if take 1 cs = [CHR 0x80]
                \<and> take 1 (drop 1 cs) \<in> set
                     [[CHR 0x80], [CHR 0x81], [CHR 0x82], [CHR 0x83], [CHR 0x84], [CHR 0x85],
                      [CHR 0x86], [CHR 0x87], [CHR 0x88], [CHR 0x89], [CHR 0x8A],
                      [CHR 0xA8], [CHR 0xA9], [CHR 0xAF]]
             then 3
             else if take 2 cs = [CHR 0x81, CHR 0x9F] then 3 else 0)
          else if c = CHR 0xE3 then
            (if take 2 cs = [CHR 0x80, CHR 0x80] then 3 else 0)
          else 0)"

fun fieldsFrom :: "string \<Rightarrow> string \<Rightarrow> string list" where
  "fieldsFrom cur [] = (if cur = [] then [] else [cur])"
| "fieldsFrom cur (c # cs) =
     (if spaceWidth (c # cs) = 0 then fieldsFrom (cur @ [c]) cs
      else (if cur = [] then [] else [cur]) @ fieldsFrom [] (drop (spaceWidth (c # cs) - 1) cs))"

definition Fields :: "string \<Rightarrow> string list" where
  "Fields s = fieldsFrom [] s"

text \<open>
  \<open>strings.Split(s, "\n")\<close>: the pieces between line feeds; always at least one piece,
  so the empty string gives one empty line.
\<close>

fun splitFrom :: "string \<Rightarrow> string \<Rightarrow> string list" where
  "splitFrom cur [] = [cur]"
| "splitFrom cur (c # cs) =
     (if c = CHR 0x0A then cur # splitFrom [] cs else splitFrom (cur @ [c]) cs)"

definition Split :: "string \<Rightarrow> string list" where
  "Split s = splitFrom [] s"

fun Join :: "string list \<Rightarrow> string \<Rightarrow> string" where
  "Join [] sep = []"
| "Join [x] sep = x"
| "Join (x # y # ys) sep = x @ sep @ Join (y # ys) sep"

section \<open>Data model\<close>

text \<open>
  \<open>NVMeTarget\<close> with the fields the code and its tests name. \<open>NVMeType\<close> is the base
  structure of every implementation; a Go map read at a missing key gives the empty
  string.
\<close>

record NVMeTarget =
  Portal :: string
  TargetNqn :: string
  TrType :: string
  AdrFam :: string
  SubType :: string
  Treq :: string
  PortID :: string
  TrsvcID :: string
  SecType :: string
  TargetType :: string
  HostAdr :: string

definition emptyTarget :: NVMeTarget where
  "emptyTarget = \<lparr>Portal = [], TargetNqn = [], TrType = [], AdrFam = [], SubType = [],
     Treq = [], PortID = [], TrsvcID = [], SecType = [], TargetType = [], HostAdr = []\<rparr>"

record NVMeType =
  mock :: bool
  options :: "string \<rightharpoonup> string"

definition ChrootDirectory :: string where
  "ChrootDirectory = ''chrootDirectory''"

definition DefaultInitiatorNameFile :: string where
  "DefaultInitiatorNameFile = ''/etc/nvme/hostnqn''"

definition NVMeCommand :: string where
  "NVMeCommand = ''nvme''"

definition NVMePort :: string where
  "NVMePort = ''4420''"

text \<open>
  Modelled from the spec: the constant \<open>NVMeTransportTypeTCP\<close>, which \<open>gonvme_tcp.go\<close>
  uses and another file of the package declares; the specification names the
  transport \<open>tcp\<close>.
\<close>

definition NVMeTransportTypeTCP :: string where
  "NVMeTransportTypeTCP = ''tcp''"

definition NewNVMeTCP :: "(string \<rightharpoonup> string) \<Rightarrow> NVMeType" where
  "NewNVMeTCP opts = \<lparr>mock = False, options = opts\<rparr>"

definition isMock :: "NVMeType \<Rightarrow> bool" where
  "isMock i = mock i"

definition getChrootDirectory :: "NVMeType \<Rightarrow> string" where
  "getChrootDirectory nvme =
     (let s = (case options nvme ChrootDirectory of None \<Rightarrow> [] | Some v \<Rightarrow> v)
      in if s = [] then ''/'' else s)"

definition buildNVMeCommand :: "NVMeType \<Rightarrow> string list \<Rightarrow> string list" where
  "buildNVMeCommand nvme cmd =
     (if getChrootDirectory nvme = ''/'' then cmd
      else [''chroot'', getChrootDirectory nvme] @ cmd)"

section \<open>The process adapter\<close>

text \<open>
  \<open>exec.Command(...).Output()\<close> is the outside world: a function from the argument
  vector to the captured standard output and an error. The error of a process that ran
  and failed is an \<open>*exec.ExitError\<close>; its \<open>Sys()\<close> is a \<open>syscall.WaitStatus\<close> whose
  \<open>ExitStatus()\<close> is the exit code (\<open>-1\<close> for a process killed by a signal), or
  something else (\<open>None\<close>). Every other error (the program was not found, ...) carries
  its message. \<open>os.Stat\<close> is the second collaborator. \<open>fmt.Printf\<close> only writes to
  standard output and is left out.
\<close>

datatype go_error = ExitError "int option" | OtherError string

type_synonym process_adapter = "string list \<Rightarrow> string \<times> go_error option"

type_synonym file_stat = "string \<Rightarrow> go_error option"

section \<open>Connect and disconnect\<close>

definition nvmeConnect :: "NVMeType \<Rightarrow> process_adapter \<Rightarrow> NVMeTarget \<Rightarrow> go_error option" where
  "nvmeConnect nvme run target =
     (let exe = buildNVMeCommand nvme
            [NVMeCommand, ''connect'', ''-t'', ''tcp'', ''-n'', TargetNqn target,
             ''-a'', Portal target, ''-s'', NVMePort];
          err = snd (run exe)
      in case err of
           None \<Rightarrow> None
         | Some e \<Rightarrow>
             (let err' =
                (case e of
                   ExitError sys \<Rightarrow>
                     (let nvmeConnectResult = (case sys of Some status \<Rightarrow> status | None \<Rightarrow> - 1)
                      in if nvmeConnectResult = 114 then None else Some e)
                 | OtherError m \<Rightarrow> Some e)
              in case err' of Some e' \<Rightarrow> Some e' | None \<Rightarrow> None))"

definition NVMeConnect :: "NVMeType \<Rightarrow> process_adapter \<Rightarrow> NVMeTarget \<Rightarrow> go_error option" where
  "NVMeConnect nvme run target = nvmeConnect nvme run target"

definition nvmeDisonnect :: "NVMeType \<Rightarrow> process_adapter \<Rightarrow> NVMeTarget \<Rightarrow> go_error option" where
  "nvmeDisonnect nvme run target =
     (let exe = buildNVMeCommand nvme [NVMeCommand, ''disconnect'', ''-n'', TargetNqn target];
          err = snd (run exe)
      in err)"

definition NVMeDisonnect :: "NVMeType \<Rightarrow> process_adapter \<Rightarrow> NVMeTarget \<Rightarrow> go_error option" where
  "NVMeDisonnect nvme run target = nvmeDisonnect nvme run target"

section \<open>Initiator names\<close>

text \<open>
  The outer \<open>err\<close> is assigned by \<open>os.Stat\<close> only: the \<open>err\<close> of \<open>cmd.Output()\<close> is a new
  variable of the loop body (\<open>:=\<close>), printed and dropped.
\<close>

definition initiatorConfig :: "NVMeType \<Rightarrow> string \<Rightarrow> string list" where
  "initiatorConfig nvme filename =
     (if filename = [] then
        (if getChrootDirectory nvme \<noteq> ''/''
         then [getChrootDirectory nvme @ ''/'' @ DefaultInitiatorNameFile]
         else [DefaultInitiatorNameFile])
      else [filename])"

definition readInitiatorFile ::
  "file_stat \<Rightarrow> process_adapter \<Rightarrow> string \<Rightarrow> string list \<times> go_error option
     \<Rightarrow> string list \<times> go_error option" where
  "readInitiatorFile stat run init acc =
     (case stat init of
        Some e \<Rightarrow> (fst acc, Some e)
      | None \<Rightarrow>
          (let out = fst (run [''cat'', init]);
               lines = Split out
           in (fst acc @ filter (\<lambda>line. line \<noteq> []) lines, None)))"

definition getInitiators ::
  "NVMeType \<Rightarrow> file_stat \<Rightarrow> process_adapter \<Rightarrow> string \<Rightarrow> string list \<times> go_error option" where
  "getInitiators nvme stat run filename =
     (let (nqns, err) = fold (readInitiatorFile stat run) (initiatorConfig nvme filename) ([], None)
      in if length nqns = 0 then (nqns, err) else (nqns, None))"

definition GetInitiators ::
  "NVMeType \<Rightarrow> file_stat \<Rightarrow> process_adapter \<Rightarrow> string \<Rightarrow> string list \<times> go_error option" where
  "GetInitiators nvme stat run filename = getInitiators nvme stat run filename"

section \<open>Discovery\<close>

text \<open>
  The state of the scanning loop of \<open>discoverNVMeTCPTargets\<close>: the targets appended so
  far, the target in progress, the number of entry headers seen and the skip flag.
  \<open>entryCount\<close> is only compared with zero; a Go \<open>int\<close> cannot wrap within the length
  of a string, so it is a natural number.
\<close>

record discoverState =
  targets :: "NVMeTarget list"
  nvmeTarget :: NVMeTarget
  entryCount :: nat
  skipIteration :: bool

definition initState :: discoverState where
  "initState = \<lparr>targets = [], nvmeTarget = emptyTarget, entryCount = 0, skipIteration = False\<rparr>"

text \<open>
  The cases of the \<open>switch\<close> that fill a field. They touch the target in progress and
  the skip flag only; a key that is none of the nine changes nothing.
\<close>

definition setField :: "string \<Rightarrow> string \<Rightarrow> NVMeTarget \<times> bool \<Rightarrow> NVMeTarget \<times> bool" where
  "setField key val ts =
     (let t = fst ts; skip = snd ts in
      if key = ''trtype:'' then
        (t\<lparr>TargetType := val\<rparr>, if val \<noteq> NVMeTransportTypeTCP then True else skip)
      else if key = ''traddr:'' then (t\<lparr>Portal := val\<rparr>, skip)
      else if key = ''subnqn:'' then (t\<lparr>TargetNqn := val\<rparr>, skip)
      else if key = ''adrfam:'' then (t\<lparr>AdrFam := val\<rparr>, skip)
      else if key = ''subtype:'' then (t\<lparr>SubType := val\<rparr>, skip)
      else if key = ''treq:'' then (t\<lparr>Treq := val\<rparr>, skip)
      else if key = ''portid:'' then (t\<lparr>PortID := val\<rparr>, skip)
      else if key = ''trsvcid:'' then (t\<lparr>TrsvcID := val\<rparr>, skip)
      else if key = ''sectype:'' then (t\<lparr>SecType := val\<rparr>, skip)
      else (t, skip))"

text \<open>One iteration of the loop over the lines of the output.\<close>

definition processLine :: "string \<Rightarrow> discoverState \<Rightarrow> discoverState" where
  "processLine line st =
     (let tokens = Fields line in
      if length tokens < 2 then st
      else
        (let key = hd tokens; val = Join (tl tokens) '' '' in
         if key = ''=====Discovery'' then
           \<lparr>targets = (if entryCount st \<noteq> 0 \<and> \<not> skipIteration st
                        then targets st @ [nvmeTarget st] else targets st),
            nvmeTarget = emptyTarget,
            entryCount = entryCount st + 1,
            skipIteration = False\<rparr>
         else
           (let ts = setField key val (nvmeTarget st, skipIteration st)
            in st\<lparr>nvmeTarget := fst ts, skipIteration := snd ts\<rparr>)))"

definition parseDiscoveryOutput :: "string \<Rightarrow> NVMeTarget list" where
  "parseDiscoveryOutput out =
     (let st = fold processLine (Split out) initState
      in if \<not> skipIteration st \<and> TargetNqn (nvmeTarget st) \<noteq> []
         then targets st @ [nvmeTarget st] else targets st)"

definition discoverNVMeTCPTargets ::
  "NVMeType \<Rightarrow> process_adapter \<Rightarrow> string \<Rightarrow> bool \<Rightarrow> NVMeTarget list \<times> go_error option" where
  "discoverNVMeTCPTargets nvme run address login =
     (let exe = buildNVMeCommand nvme
            [NVMeCommand, ''discover'', ''-t'', ''tcp'', ''-a'', address, ''-s'', NVMePort];
          res = run exe
      in case snd res of
           Some e \<Rightarrow> ([], Some e)
         | None \<Rightarrow> (parseDiscoveryOutput (fst res), None))"

definition DiscoverNVMeTCPTargets ::
  "NVMeType \<Rightarrow> process_adapter \<Rightarrow> string \<Rightarrow> bool \<Rightarrow> NVMeTarget list \<times> go_error option" where
  "DiscoverNVMeTCPTargets nvme run address login = discoverNVMeTCPTargets nvme run address login"

section \<open>The discovery log as entries\<close>

text \<open>
  The vocabulary the properties are stated in. A line reaches the \<open>switch\<close> only with
  at least two fields; its first field is then the \<open>key\<close>. A header line is one whose
  key is the entry-header literal. \<open>blocks\<close> cuts the lines at the header lines: the
  first block is what precedes the first header, every later block holds the lines of
  one entry.
\<close>

definition lineKey :: "string \<Rightarrow> string option" where
  "lineKey line = (let tokens = Fields line in if length tokens < 2 then None else Some (hd tokens))"

definition isHeader :: "string \<Rightarrow> bool" where
  "isHeader line = (lineKey line = Some ''=====Discovery'')"

fun blocks :: "string list \<Rightarrow> string list list" where
  "blocks [] = [[]]"
| "blocks (l # ls) =
     (if isHeader l then [] # blocks ls
      else (case blocks ls of [] \<Rightarrow> [[l]] | b # bs \<Rightarrow> (l # b) # bs))"

definition logEntries :: "string \<Rightarrow> string list list" where
  "logEntries out = tl (blocks (Split out))"

definition logPreamble :: "string \<Rightarrow> string list" where
  "logPreamble out = hd (blocks (Split out))"

text \<open>
  The target one block of lines describes, and whether the block is marked skip: the
  field cases of the switch run over the lines of the block alone, from the empty
  record and a cleared flag.
\<close>

definition fieldStep :: "string \<Rightarrow> NVMeTarget \<times> bool \<Rightarrow> NVMeTarget \<times> bool" where
  "fieldStep line ts =
     (let tokens = Fields line in
      if length tokens < 2 then ts else setField (hd tokens) (Join (tl tokens) '' '') ts)"

definition entryTarget :: "string list \<Rightarrow> NVMeTarget" where
  "entryTarget b = fst (fold fieldStep b (emptyTarget, False))"

definition entrySkip :: "string list \<Rightarrow> bool" where
  "entrySkip b = snd (fold fieldStep b (emptyTarget, False))"

definition keyCount :: "string \<Rightarrow> string list \<Rightarrow> nat" where
  "keyCount k b = length (filter (\<lambda>line. lineKey line = Some k) b)"



definition completeEntry :: "string list \<Rightarrow> bool" where
  "completeEntry b = (1 \<le> keyCount ''subnqn:'' b \<and> 1 \<le> keyCount ''traddr:'' b)"




text \<open>
  The entry in progress when the input ends is the last block (the lines before the
  first header when there is no header at all); the entries before it are closed by
  the header that follows them, which appends those that are not marked skip.
\<close>

definition finalEntry :: "string \<Rightarrow> string list" where
  "finalEntry out = last (blocks (Split out))"

definition boundaryTargets :: "string \<Rightarrow> NVMeTarget list" where
  "boundaryTargets out =
     map entryTarget (filter (\<lambda>b. \<not> entrySkip b) (butlast (logEntries out)))"

section \<open>The copy of the discovery loop in the second file\<close>

text \<open>
  A second file of the repository holds another copy of \<open>discoverNVMeTCPTargets\<close>.
  It differs in two places: the \<open>trtype:\<close> case sets the skip flag when the value
  \<^emph>\<open>equals\<close> a constant \<open>NVMeNVMeTransportTypeTCP\<close> (no file of the sources declares
  it, so it is a parameter here), and the target in progress is appended at the end of
  the input without any test. The other cases are those of \<open>setField\<close>.
\<close>

definition setField_part_002 ::
  "string \<Rightarrow> string \<Rightarrow> string \<Rightarrow> NVMeTarget \<times> bool \<Rightarrow> NVMeTarget \<times> bool" where
  "setField_part_002 tcpConst key val ts =
     (if key = ''trtype:'' then
        ((fst ts)\<lparr>TargetType := val\<rparr>, if val = tcpConst then True else snd ts)
      else setField key val ts)"

definition processLine_part_002 :: "string \<Rightarrow> string \<Rightarrow> discoverState \<Rightarrow> discoverState" where
  "processLine_part_002 tcpConst line st =
     (let tokens = Fields line in
      if length tokens < 2 then st
      else
        (let key = hd tokens; val = Join (tl tokens) '' '' in
         if key = ''=====Discovery'' then
           \<lparr>targets = (if entryCount st \<noteq> 0 \<and> \<not> skipIteration st
                        then targets st @ [nvmeTarget st] else targets st),
            nvmeTarget = emptyTarget,
            entryCount = entryCount st + 1,
            skipIteration = False\<rparr>
         else
           (let ts = setField_part_002 tcpConst key val (nvmeTarget st, skipIteration st)
            in st\<lparr>nvmeTarget := fst ts, skipIteration := snd ts\<rparr>)))"

definition parseDiscoveryOutput_part_002 :: "string \<Rightarrow> string \<Rightarrow> NVMeTarget list" where
  "parseDiscoveryOutput_part_002 tcpConst out =
     (let st = fold (processLine_part_002 tcpConst) (Split out) initState
      in targets st @ [nvmeTarget st])"

definition discoverNVMeTCPTargets_part_002 ::
  "string \<Rightarrow> NVMeType \<Rightarrow> process_adapter \<Rightarrow> string \<Rightarrow> bool
     \<Rightarrow> NVMeTarget list \<times> go_error option" where
  "discoverNVMeTCPTargets_part_002 tcpConst nvme run address login =
     (let exe = buildNVMeCommand nvme
            [NVMeCommand, ''discover'', ''-t'', ''tcp'', ''-a'', address, ''-s'', NVMePort];
          res = run exe
      in case snd res of
           Some e \<Rightarrow> ([], Some e)
         | None \<Rightarrow> (parseDiscoveryOutput_part_002 tcpConst (fst res), None))"

section \<open>The mock\<close>

text \<open>
  Modelled from the spec: the mock implementation of the initiator interface. Its
  source file is missing from the sources (its tests are there), so the two discovery
  methods follow the specification's words: the method first checks the discovery
  fault switch; when it is set the result is empty and the error's message contains the
  token \<open>induced\<close>; otherwise it synthesises the targets numbered \<open>1\<close> to \<open>N\<close>, where
  \<open>N\<close> is the configured cardinality. What a synthesised target holds is not specified
  and is a parameter. The switches are those the tests reset.
\<close>

record GONVMEMock =
  InduceDiscoveryError :: bool
  InduceInitiatorError :: bool
  InduceTCPLoginError :: bool
  InduceFCLoginError :: bool
  InduceLogoutError :: bool
  InduceGetSessionsError :: bool
  InducedNVMeDeviceAndNamespaceError :: bool
  InducedNVMeNamespaceIDError :: bool
  InducedNVMeDeviceDataError :: bool

definition mockDiscoverTargets ::
  "GONVMEMock \<Rightarrow> (nat \<Rightarrow> NVMeTarget) \<Rightarrow> nat \<Rightarrow> NVMeTarget list \<times> go_error option" where
  "mockDiscoverTargets sw synth n =
     (if InduceDiscoveryError sw then ([], Some (OtherError ''induced error''))
      else (map synth [1 ..< Suc n], None))"

definition mockDiscoverNVMeTCPTargets ::
  "GONVMEMock \<Rightarrow> (nat \<Rightarrow> NVMeTarget) \<Rightarrow> nat \<Rightarrow> string \<Rightarrow> bool
     \<Rightarrow> NVMeTarget list \<times> go_error option" where
  "mockDiscoverNVMeTCPTargets sw synth numberOfTCPTargets address login =
     mockDiscoverTargets sw synth numberOfTCPTargets"

definition mockDiscoverNVMeFCTargets ::
  "GONVMEMock \<Rightarrow> (nat \<Rightarrow> NVMeTarget) \<Rightarrow> nat \<Rightarrow> string \<Rightarrow> bool
     \<Rightarrow> NVMeTarget list \<times> go_error option" where
  "mockDiscoverNVMeFCTargets sw synth numberOfFCTargets address login =
     mockDiscoverTargets sw synth numberOfFCTargets"

text \<open>\<open>err.Error()\<close> of an error that carries a message, and \<open>strings.Contains\<close>.\<close>

fun errorText :: "go_error \<Rightarrow> string option" where
  "errorText (OtherError m) = Some m"
| "errorText (ExitError sys) = None"

fun Contains :: "string \<Rightarrow> string \<Rightarrow> bool" where
  "Contains [] sub = (sub = [])"
| "Contains (c # cs) sub = (take (length sub) (c # cs) = sub \<or> Contains cs sub)"

definition errorContains :: "go_error option \<Rightarrow> string \<Rightarrow> bool" where
  "errorContains err tok =
     (case err of
        None \<Rightarrow> False
      | Some e \<Rightarrow> (case errorText e of None \<Rightarrow> False | Some m \<Rightarrow> Contains m tok))"

section \<open>Concrete inputs\<close>

text \<open>
  A process adapter that succeeds with a given output, one that fails with a given
  error, and a client without a chroot directory.
\<close>

definition okRun :: "string \<Rightarrow> process_adapter" where
  "okRun out = (\<lambda>argv. (out, None))"

definition failRun :: "go_error \<Rightarrow> process_adapter" where
  "failRun e = (\<lambda>argv. ([], Some e))"

definition plainClient :: NVMeType where
  "plainClient = NewNVMeTCP Map.empty"

text \<open>The discovery log of the comment in \<open>discoverNVMeTCPTargets\<close>: one fc entry, one tcp entry.\<close>

definition sampleLog :: string where
  "sampleLog = Join
     [''Discovery Log Number of Records 2, Generation counter 2'',
      ''=====Discovery Log Entry 0======'',
      ''trtype:  fc'',
      ''adrfam:  fibre-channel'',
      ''subtype: nvme subsystem'',
      ''treq:    not specified'',
      ''portid:  0'',
      ''trsvcid: none'',
      ''subnqn:  nqn.1111-11.com.dell:powerstore:00:a1a1a1a111a1111a111a'',
      ''traddr:  nn-0x11aaa111a1111a11:aa-0x11aaa11111111a11'',
      [],
      ''=====Discovery Log Entry 1======'',
      ''trtype:  tcp'',
      ''adrfam:  ipv4'',
      ''subtype: nvme subsystem'',
      ''treq:    not specified'',
      ''portid:  2304'',
      ''trsvcid: 4420'',
      ''subnqn:  nqn.1111-11.com.dell:powerstore:00:a1a1a1a111a1111a111a'',
      ''traddr:  1.1.1.1'',
      ''sectype: none'']
     [CHR 0x0A]"

definition sampleTarget :: NVMeTarget where
  "sampleTarget =
     \<lparr>Portal = ''1.1.1.1'',
      TargetNqn = ''nqn.1111-11.com.dell:powerstore:00:a1a1a1a111a1111a111a'',
      TrType = [], AdrFam = ''ipv4'', SubType = ''nvme subsystem'', Treq = ''not specified'',
      PortID = ''2304'', TrsvcID = ''4420'', SecType = ''none'', TargetType = ''tcp'',
      HostAdr = []\<rparr>"

text \<open>A tcp entry with a subsystem NQN and no \<open>traddr:\<close> line.\<close>

definition noPortalLog :: string where
  "noPortalLog = Join
     [''=====Discovery Log Entry 0======'',
      ''trtype:  tcp'',
      ''subnqn:  nqn.x'']
     [CHR 0x0A]"

text \<open>Two entry headers and nothing else.\<close>

definition twoHeadersLog :: string where
  "twoHeadersLog = Join
     [''=====Discovery Log Entry 0======'',
      ''=====Discovery Log Entry 1======'']
     [CHR 0x0A]"

text \<open>Two entry headers whose first blank is the rune U+00A0 (bytes 0xC2 0xA0).\<close>

definition nbspHeadersLog :: string where
  "nbspHeadersLog = Join
     [''=====Discovery'' @ [CHR 0xC2, CHR 0xA0] @ ''Log Entry 0======'',
      ''=====Discovery'' @ [CHR 0xC2, CHR 0xA0] @ ''Log Entry 1======'']
     [CHR 0x0A]"



text \<open>The line the tool prints first, alone.\<close>

definition logHeaderOnly :: string where
  "logHeaderOnly = ''Discovery Log Number of Records 0, Generation counter 2''"

text \<open>An initiator file read by \<open>cat\<close>, and a file system in which one file is missing.\<close>

definition catRun :: "string \<Rightarrow> string \<Rightarrow> process_adapter" where
  "catRun path content =
     (\<lambda>argv. if argv = [''cat'', path] then (content, None) else ([], Some (ExitError (Some 1))))"

definition statAllBut :: "string \<Rightarrow> file_stat" where
  "statAllBut missing =
     (\<lambda>name. if name = missing then Some (OtherError ''no such file or directory'') else None)"

text \<open>The switches as the tests' \<open>reset\<close> leaves them.\<close>

definition noFaults :: GONVMEMock where
  "noFaults =
     \<lparr>InduceDiscoveryError = False, InduceInitiatorError = False, InduceTCPLoginError = False,
      InduceFCLoginError = False, InduceLogoutError = False, InduceGetSessionsError = False,
      InducedNVMeDeviceAndNamespaceError = False, InducedNVMeNamespaceIDError = False,
      InducedNVMeDeviceDataError = False\<rparr>"


section \<open>Properties of the string functions\<close>

text \<open>
  A field is never empty, so the value of a line that reaches the \<open>switch\<close> (its
  fields after the first, joined by single spaces) is never empty. This is all the
  properties of the parser use of \<open>strings.Fields\<close>.
\<close>

lemma fieldsFrom_nonempty: "t \<in> set (fieldsFrom cur s) \<Longrightarrow> t \<noteq> []"
  by (induction cur s rule: fieldsFrom.induct) (auto split: if_splits)

lemma Fields_nonempty: "t \<in> set (Fields s) \<Longrightarrow> t \<noteq> []"
  unfolding Fields_def by (rule fieldsFrom_nonempty)

lemma Join_nonempty: "ts \<noteq> [] \<Longrightarrow> hd ts \<noteq> [] \<Longrightarrow> Join ts sep \<noteq> []"
  by (induction ts sep rule: Join.induct) auto

lemma value_nonempty:
  assumes "\<not> length (Fields line) < 2"
  shows "Join (tl (Fields line)) '' '' \<noteq> []"
proof -
  from assms obtain k v rest where f: "Fields line = k # v # rest"
    by (cases "Fields line"; cases "tl (Fields line)") auto
  then have "v \<in> set (Fields line)" by simp
  then have "v \<noteq> []" by (rule Fields_nonempty)
  with f show ?thesis by (simp add: Join_nonempty)
qed

section \<open>The loop, entry by entry\<close>

lemma blocks_nonempty [simp]: "blocks ls \<noteq> []"
  by (induction ls) (auto split: list.splits)

lemma processLine_header:
  "isHeader l \<Longrightarrow> processLine l st =
     \<lparr>targets = targets st @ (if entryCount st \<noteq> 0 \<and> \<not> skipIteration st then [nvmeTarget st] else []),
      nvmeTarget = emptyTarget, entryCount = Suc (entryCount st), skipIteration = False\<rparr>"
  by (auto simp: isHeader_def lineKey_def processLine_def Let_def split: if_splits)

lemma processLine_field:
  "\<not> isHeader l \<Longrightarrow> processLine l st =
     st\<lparr>nvmeTarget := fst (fieldStep l (nvmeTarget st, skipIteration st)),
        skipIteration := snd (fieldStep l (nvmeTarget st, skipIteration st))\<rparr>"
  by (auto simp: isHeader_def lineKey_def processLine_def fieldStep_def Let_def split: if_splits)

lemma fold_processLine_block:
  "\<forall>l \<in> set b. \<not> isHeader l \<Longrightarrow> fold processLine b st =
     st\<lparr>nvmeTarget := fst (fold fieldStep b (nvmeTarget st, skipIteration st)),
        skipIteration := snd (fold fieldStep b (nvmeTarget st, skipIteration st))\<rparr>"
  by (induction b arbitrary: st) (auto simp: processLine_field)

lemma loop_blocks:
  "fold processLine ls st =
     (let bs = blocks ls; p = fold fieldStep (hd bs) (nvmeTarget st, skipIteration st) in
      if tl bs = [] then st\<lparr>nvmeTarget := fst p, skipIteration := snd p\<rparr>
      else \<lparr>targets = targets st @ (if entryCount st \<noteq> 0 \<and> \<not> snd p then [fst p] else [])
                @ map entryTarget (filter (\<lambda>b. \<not> entrySkip b) (butlast (tl bs))),
            nvmeTarget = entryTarget (last bs),
            entryCount = entryCount st + length (tl bs),
            skipIteration = entrySkip (last bs)\<rparr>)"
proof (induction ls arbitrary: st)
  case Nil
  then show ?case by simp
next
  case (Cons l ls)
  show ?case
  proof (cases "isHeader l")
    case True
    obtain b bs' where bs: "blocks ls = b # bs'" by (cases "blocks ls") auto
    show ?thesis
      using True bs
      by (simp add: Cons.IH processLine_header Let_def entryTarget_def entrySkip_def)
  next
    case False
    obtain b bs' where bs: "blocks ls = b # bs'" by (cases "blocks ls") auto
    show ?thesis
      using False bs
      by (simp add: Cons.IH processLine_field Let_def)
  qed
qed

lemma parse_blocks:
  "parseDiscoveryOutput out =
     (let bs = blocks (Split out) in
      map entryTarget (filter (\<lambda>b. \<not> entrySkip b) (butlast (tl bs)))
      @ (if \<not> entrySkip (last bs) \<and> TargetNqn (entryTarget (last bs)) \<noteq> []
         then [entryTarget (last bs)] else []))"
proof -
  obtain b bs' where bs: "blocks (Split out) = b # bs'" by (cases "blocks (Split out)") auto
  show ?thesis
    unfolding parseDiscoveryOutput_def loop_blocks
    using bs by (simp add: Let_def initState_def entryTarget_def entrySkip_def)
qed

lemma fieldStep_value:
  "lineKey l = Some k \<Longrightarrow> \<exists>v. v \<noteq> [] \<and> fieldStep l ts = setField k v ts"
  using value_nonempty [of l]
  by (auto simp: lineKey_def fieldStep_def Let_def split: if_splits)

lemma fieldStep_None: "lineKey l = None \<Longrightarrow> fieldStep l ts = ts"
  by (auto simp: lineKey_def fieldStep_def Let_def split: if_splits)

lemma fieldStep_cases:
  obtains (none) "lineKey l = None" "fieldStep l ts = ts"
  | (some) k v where "lineKey l = Some k" "v \<noteq> []" "fieldStep l ts = setField k v ts"
  using fieldStep_value [of l _ ts] fieldStep_None [of l ts] by (cases "lineKey l") auto

subsection \<open>What the lines of one entry do to the NQN\<close>

lemma fieldStep_nqn_other:
  "lineKey l \<noteq> Some ''subnqn:'' \<Longrightarrow> TargetNqn (fst (fieldStep l ts)) = TargetNqn (fst ts)"
  by (cases l ts rule: fieldStep_cases) (auto simp: setField_def Let_def)

lemma fieldStep_nqn_set:
  "lineKey l = Some ''subnqn:'' \<Longrightarrow> TargetNqn (fst (fieldStep l ts)) \<noteq> []"
  by (cases l ts rule: fieldStep_cases) (auto simp: setField_def Let_def)

lemma fold_nqn_absent:
  "keyCount ''subnqn:'' b = 0 \<Longrightarrow> TargetNqn (fst (fold fieldStep b ts)) = TargetNqn (fst ts)"
  by (induction b arbitrary: ts) (auto simp: keyCount_def fieldStep_nqn_other split: if_splits)

lemma fold_nqn_kept:
  "TargetNqn (fst ts) \<noteq> [] \<Longrightarrow> TargetNqn (fst (fold fieldStep b ts)) \<noteq> []"
proof (induction b arbitrary: ts)
  case Nil then show ?case by simp
next
  case (Cons l b)
  have "TargetNqn (fst (fieldStep l ts)) \<noteq> []"
    using Cons.prems fieldStep_nqn_other [of l ts] fieldStep_nqn_set [of l ts]
    by (cases "lineKey l = Some ''subnqn:''") auto
  then show ?case using Cons.IH by simp
qed

lemma fold_nqn_present:
  "1 \<le> keyCount ''subnqn:'' b \<Longrightarrow> TargetNqn (fst (fold fieldStep b ts)) \<noteq> []"
proof (induction b arbitrary: ts)
  case Nil then show ?case by (simp add: keyCount_def)
next
  case (Cons l b)
  show ?case
  proof (cases "lineKey l = Some ''subnqn:''")
    case True
    then show ?thesis using fold_nqn_kept [OF fieldStep_nqn_set] by simp
  next
    case False
    then have "1 \<le> keyCount ''subnqn:'' b" using Cons.prems by (simp add: keyCount_def)
    then show ?thesis using Cons.IH by simp
  qed
qed

subsection \<open>What the lines of one entry do to the portal\<close>

lemma fieldStep_portal_other:
  "lineKey l \<noteq> Some ''traddr:'' \<Longrightarrow> Portal (fst (fieldStep l ts)) = Portal (fst ts)"
  by (cases l ts rule: fieldStep_cases) (auto simp: setField_def Let_def)

lemma fieldStep_portal_set:
  "lineKey l = Some ''traddr:'' \<Longrightarrow> Portal (fst (fieldStep l ts)) \<noteq> []"
  by (cases l ts rule: fieldStep_cases) (auto simp: setField_def Let_def)

lemma fold_portal_kept:
  "Portal (fst ts) \<noteq> [] \<Longrightarrow> Portal (fst (fold fieldStep b ts)) \<noteq> []"
proof (induction b arbitrary: ts)
  case Nil then show ?case by simp
next
  case (Cons l b)
  have "Portal (fst (fieldStep l ts)) \<noteq> []"
    using Cons.prems fieldStep_portal_other [of l ts] fieldStep_portal_set [of l ts]
    by (cases "lineKey l = Some ''traddr:''") auto
  then show ?case using Cons.IH by simp
qed

lemma fold_portal_present:
  "1 \<le> keyCount ''traddr:'' b \<Longrightarrow> Portal (fst (fold fieldStep b ts)) \<noteq> []"
proof (induction b arbitrary: ts)
  case Nil then show ?case by (simp add: keyCount_def)
next
  case (Cons l b)
  show ?case
  proof (cases "lineKey l = Some ''traddr:''")
    case True
    then show ?thesis using fold_portal_kept [OF fieldStep_portal_set] by simp
  next
    case False
    then have "1 \<le> keyCount ''traddr:'' b" using Cons.prems by (simp add: keyCount_def)
    then show ?thesis using Cons.IH by simp
  qed
qed

subsection \<open>The transport type and the skip flag\<close>






lemma entry_nqn: "1 \<le> keyCount ''subnqn:'' b \<Longrightarrow> TargetNqn (entryTarget b) \<noteq> []"
  by (simp add: entryTarget_def fold_nqn_present)

lemma entry_no_nqn: "keyCount ''subnqn:'' b = 0 \<Longrightarrow> TargetNqn (entryTarget b) = []"
  by (simp add: entryTarget_def fold_nqn_absent emptyTarget_def)

lemma entry_portal: "1 \<le> keyCount ''traddr:'' b \<Longrightarrow> Portal (entryTarget b) \<noteq> []"
  by (simp add: entryTarget_def fold_portal_present)



subsection \<open>Counting over blocks\<close>

lemma length_blocks: "length (blocks ls) = Suc (length (filter isHeader ls))"
  by (induction ls) (auto split: list.splits)

lemma keyCount_blocks: "b \<in> set (blocks ls) \<Longrightarrow> keyCount k b \<le> keyCount k ls"
proof (induction ls arbitrary: b)
  case Nil then show ?case by simp
next
  case (Cons l ls)
  obtain b0 bs where bs: "blocks ls = b0 # bs" by (cases "blocks ls") auto
  show ?case
  proof (cases "isHeader l")
    case True
    with Cons.prems have "b = [] \<or> b \<in> set (blocks ls)" by auto
    then show ?thesis using Cons.IH [of b] by (auto simp: keyCount_def le_SucI)
  next
    case False
    with Cons.prems bs have "b = l # b0 \<or> b \<in> set bs" by auto
    then show ?thesis
    proof
      assume "b = l # b0"
      moreover have "keyCount k b0 \<le> keyCount k ls" using Cons.IH [of b0] bs by simp
      ultimately show ?thesis by (simp add: keyCount_def)
    next
      assume "b \<in> set bs"
      then have "keyCount k b \<le> keyCount k ls" using Cons.IH [of b] bs by simp
      then show ?thesis by (simp add: keyCount_def le_SucI)
    qed
  qed
qed

subsection \<open>The returned sequence in terms of the entries\<close>

lemma discover_ok:
  "run (buildNVMeCommand nvme
          [NVMeCommand, ''discover'', ''-t'', ''tcp'', ''-a'', address, ''-s'', NVMePort]) = (out, None)
   \<Longrightarrow> discoverNVMeTCPTargets nvme run address login = (parseDiscoveryOutput out, None)"
  by (simp add: discoverNVMeTCPTargets_def Let_def)

lemma parse_entries:
  "parseDiscoveryOutput out =
     (if logEntries out = [] then
        (if \<not> entrySkip (logPreamble out) \<and> TargetNqn (entryTarget (logPreamble out)) \<noteq> []
         then [entryTarget (logPreamble out)] else [])
      else
        map entryTarget (filter (\<lambda>b. \<not> entrySkip b) (butlast (logEntries out)))
        @ (if \<not> entrySkip (last (logEntries out)) \<and> TargetNqn (entryTarget (last (logEntries out))) \<noteq> []
           then [entryTarget (last (logEntries out))] else []))"
proof -
  obtain b bs' where bs: "blocks (Split out) = b # bs'" by (cases "blocks (Split out)") auto
  show ?thesis
    unfolding parse_blocks using bs by (simp add: Let_def logEntries_def logPreamble_def)
qed

lemma returned_from_block:
  assumes "t \<in> set (parseDiscoveryOutput out)"
  shows "(\<exists>b \<in> set (logEntries out). t = entryTarget b \<and> \<not> entrySkip b)
         \<or> (logEntries out = [] \<and> t = entryTarget (logPreamble out) \<and> \<not> entrySkip (logPreamble out)
              \<and> TargetNqn t \<noteq> [])"
proof (cases "logEntries out = []")
  case True
  have "parseDiscoveryOutput out =
          (if \<not> entrySkip (logPreamble out) \<and> TargetNqn (entryTarget (logPreamble out)) \<noteq> []
           then [entryTarget (logPreamble out)] else [])"
    using True by (simp add: parse_entries)
  with assms have "t = entryTarget (logPreamble out) \<and> \<not> entrySkip (logPreamble out)
      \<and> TargetNqn (entryTarget (logPreamble out)) \<noteq> []"
    by (cases "\<not> entrySkip (logPreamble out) \<and> TargetNqn (entryTarget (logPreamble out)) \<noteq> []") simp_all
  with True show ?thesis by simp
next
  case False
  let ?es = "logEntries out"
  have l: "last ?es \<in> set ?es" using False by simp
  have eq: "parseDiscoveryOutput out =
        map entryTarget (filter (\<lambda>b. \<not> entrySkip b) (butlast ?es))
        @ (if \<not> entrySkip (last ?es) \<and> TargetNqn (entryTarget (last ?es)) \<noteq> []
           then [entryTarget (last ?es)] else [])"
    using False by (simp add: parse_entries)
  have "t \<in> entryTarget ` {b \<in> set (butlast ?es). \<not> entrySkip b}
        \<or> (t = entryTarget (last ?es) \<and> \<not> entrySkip (last ?es))"
    using assms unfolding eq
    by (cases "\<not> entrySkip (last ?es) \<and> TargetNqn (entryTarget (last ?es)) \<noteq> []") auto
  then show ?thesis
  proof
    assume "t \<in> entryTarget ` {b \<in> set (butlast ?es). \<not> entrySkip b}"
    then obtain b where b: "b \<in> set (butlast ?es)" "t = entryTarget b" "\<not> entrySkip b"
      by auto
    from b(1) have "b \<in> set ?es" by (rule in_set_butlastD)
    with b(2,3) show ?thesis by blast
  next
    assume "t = entryTarget (last ?es) \<and> \<not> entrySkip (last ?es)"
    with l show ?thesis by blast
  qed
qed


lemma parse_few_headers:
  assumes "length (filter isHeader (Split out)) \<le> 1" and "keyCount ''subnqn:'' (Split out) = 0"
  shows "parseDiscoveryOutput out = []"
proof -
  let ?bs = "blocks (Split out)"
  have len: "length ?bs \<le> 2" using assms(1) by (simp add: length_blocks)
  have ne: "?bs \<noteq> []" by simp
  have "length (tl ?bs) \<le> 1" using len by simp
  then have bl: "butlast (tl ?bs) = []" by (cases "tl ?bs") auto
  have "last ?bs \<in> set ?bs" using ne by simp
  then have "keyCount ''subnqn:'' (last ?bs) \<le> keyCount ''subnqn:'' (Split out)"
    by (rule keyCount_blocks)
  then have "TargetNqn (entryTarget (last ?bs)) = []"
    using assms(2) by (simp add: entry_no_nqn)
  then show ?thesis using bl by (simp add: parse_blocks Let_def)
qed

lemma loop_final:
  "fold processLine (Split out) initState =
     \<lparr>targets = boundaryTargets out, nvmeTarget = entryTarget (finalEntry out),
      entryCount = length (logEntries out), skipIteration = entrySkip (finalEntry out)\<rparr>"
proof -
  obtain b bs' where bs: "blocks (Split out) = b # bs'" by (cases "blocks (Split out)") auto
  show ?thesis
    unfolding loop_blocks using bs
    by (simp add: Let_def initState_def entryTarget_def entrySkip_def boundaryTargets_def
        finalEntry_def logEntries_def)
qed

section \<open>Connect: the exit status 114\<close>

text \<open>
  C1. When the process of the connect invocation fails with an exit status, \<open>NVMeConnect\<close>
  returns nil if that status is 114 (the tool's code for a connection that already
  exists) and otherwise returns the error of the process itself, unchanged.
\<close>

theorem nvmeConnect_exit_status:
  assumes "snd (run (buildNVMeCommand nvme
             [NVMeCommand, ''connect'', ''-t'', ''tcp'', ''-n'', TargetNqn target,
              ''-a'', Portal target, ''-s'', NVMePort])) = Some (ExitError (Some status))"
  shows "NVMeConnect nvme run target =
           (if status = 114 then None else Some (ExitError (Some status)))"
  using assms by (simp add: NVMeConnect_def nvmeConnect_def Let_def)

theorem nvmeConnect_exit_status_witness:
  "NVMeConnect plainClient (failRun (ExitError (Some 114))) sampleTarget = None
   \<and> NVMeConnect plainClient (failRun (ExitError (Some 1))) sampleTarget = Some (ExitError (Some 1))"
  using nvmeConnect_exit_status [where run = "failRun (ExitError (Some 114))" and nvme = plainClient
          and target = sampleTarget and status = 114]
        nvmeConnect_exit_status [where run = "failRun (ExitError (Some 1))" and nvme = plainClient
          and target = sampleTarget and status = 1]
  by (simp add: failRun_def)

section \<open>Disconnect: the error of the process, as it is\<close>

text \<open>
  C8. \<open>NVMeDisonnect\<close> returns exactly the error of the disconnect invocation: nil when
  the process succeeded, and every error of the process otherwise, whatever its exit
  status (114 included).
\<close>

theorem nvmeDisonnect_propagates:
  "NVMeDisonnect nvme run target =
     snd (run (buildNVMeCommand nvme [NVMeCommand, ''disconnect'', ''-n'', TargetNqn target]))"
  by (simp add: NVMeDisonnect_def nvmeDisonnect_def Let_def)

theorem nvmeDisonnect_propagates_witness:
  "NVMeDisonnect plainClient (failRun (ExitError (Some 114))) sampleTarget = Some (ExitError (Some 114))
   \<and> NVMeDisonnect plainClient (okRun []) sampleTarget = None"
  using nvmeDisonnect_propagates [of plainClient "failRun (ExitError (Some 114))" sampleTarget]
        nvmeDisonnect_propagates [of plainClient "okRun []" sampleTarget]
  by (simp add: failRun_def okRun_def)

section \<open>Initiator names: a missing file, a file without names\<close>

lemma readInitiatorFile_nonempty:
  "\<forall>nqn \<in> set (fst acc). nqn \<noteq> [] \<Longrightarrow>
   \<forall>nqn \<in> set (fst (readInitiatorFile stat run init acc)). nqn \<noteq> []"
  by (cases "stat init") (auto simp: readInitiatorFile_def Let_def)

lemma fold_readInitiatorFile_nonempty:
  "\<forall>nqn \<in> set (fst acc). nqn \<noteq> [] \<Longrightarrow>
   \<forall>nqn \<in> set (fst (fold (readInitiatorFile stat run) files acc)). nqn \<noteq> []"
proof (induction files arbitrary: acc)
  case Nil
  then show ?case by simp
next
  case (Cons init files)
  from Cons.prems have "\<forall>nqn \<in> set (fst (readInitiatorFile stat run init acc)). nqn \<noteq> []"
    by (rule readInitiatorFile_nonempty)
  then have "\<forall>nqn \<in> set (fst (fold (readInitiatorFile stat run) files
                 (readInitiatorFile stat run init acc))). nqn \<noteq> []"
    by (rule Cons.IH)
  then show ?case by simp
qed

text \<open>
  C10. \<open>GetInitiators\<close> with an explicit file name whose \<open>os.Stat\<close> fails returns the
  empty list and that error. When the file it reads exists and \<open>cat\<close> prints no
  non-empty line, it returns the empty list and a nil error. No string of a returned
  list is empty.
\<close>

theorem getInitiators_missing_or_empty:
  "(filename \<noteq> [] \<and> stat filename = Some e \<longrightarrow>
      GetInitiators nvme stat run filename = ([], Some e))
   \<and> (initiatorConfig nvme filename = [path] \<and> stat path = None
        \<and> (\<forall>line \<in> set (Split (fst (run [''cat'', path]))). line = []) \<longrightarrow>
      GetInitiators nvme stat run filename = ([], None))
   \<and> (\<forall>nqn \<in> set (fst (GetInitiators nvme stat run filename)). nqn \<noteq> [])"
proof (intro conjI impI)
  assume "filename \<noteq> [] \<and> stat filename = Some e"
  then show "GetInitiators nvme stat run filename = ([], Some e)"
    by (simp add: GetInitiators_def getInitiators_def initiatorConfig_def readInitiatorFile_def)
next
  assume a: "initiatorConfig nvme filename = [path] \<and> stat path = None
        \<and> (\<forall>line \<in> set (Split (fst (run [''cat'', path]))). line = [])"
  then have "filter (\<lambda>line. line \<noteq> []) (Split (fst (run [''cat'', path]))) = []"
    by (simp add: filter_empty_conv)
  with a show "GetInitiators nvme stat run filename = ([], None)"
    by (simp add: GetInitiators_def getInitiators_def readInitiatorFile_def Let_def)
next
  have "\<forall>nqn \<in> set (fst (fold (readInitiatorFile stat run) (initiatorConfig nvme filename)
            ([], None))). nqn \<noteq> []"
    by (rule fold_readInitiatorFile_nonempty) simp
  then show "\<forall>nqn \<in> set (fst (GetInitiators nvme stat run filename)). nqn \<noteq> []"
    by (simp add: GetInitiators_def getInitiators_def Let_def split: prod.splits)
qed

theorem getInitiators_missing_or_empty_witness:
  "GetInitiators plainClient (statAllBut ''testdata/missing.nvme'')
       (catRun ''testdata/no_nqn.nvme'' [CHR 0x0A]) ''testdata/missing.nvme''
     = ([], Some (OtherError ''no such file or directory''))
   \<and> GetInitiators plainClient (statAllBut ''testdata/missing.nvme'')
       (catRun ''testdata/no_nqn.nvme'' [CHR 0x0A]) ''testdata/no_nqn.nvme'' = ([], None)"
  using getInitiators_missing_or_empty [where filename = "''testdata/missing.nvme''"
          and stat = "statAllBut ''testdata/missing.nvme''" and nvme = plainClient
          and run = "catRun ''testdata/no_nqn.nvme'' [CHR 0x0A]"
          and e = "OtherError ''no such file or directory''"]
        getInitiators_missing_or_empty [where filename = "''testdata/no_nqn.nvme''"
          and stat = "statAllBut ''testdata/missing.nvme''" and nvme = plainClient
          and run = "catRun ''testdata/no_nqn.nvme'' [CHR 0x0A]"
          and path = "''testdata/no_nqn.nvme''"]
  by (simp add: statAllBut_def catRun_def initiatorConfig_def Split_def)

section \<open>The mock's discovery\<close>

text \<open>
  C7. For every cardinality \<open>N\<close>, the mock discovery of TCP targets and of FC targets
  returns exactly \<open>N\<close> targets and a nil error while the discovery fault switch is
  clear; with the switch set it returns no target and an error whose message contains
  \<open>induced\<close>, whatever the synthesis would have produced.
\<close>

theorem mock_discover_cardinality:
  "(\<not> InduceDiscoveryError sw \<longrightarrow>
      length (fst (mockDiscoverNVMeTCPTargets sw synth n address login)) = n
      \<and> snd (mockDiscoverNVMeTCPTargets sw synth n address login) = None
      \<and> length (fst (mockDiscoverNVMeFCTargets sw synth n address login)) = n
      \<and> snd (mockDiscoverNVMeFCTargets sw synth n address login) = None)
   \<and> (InduceDiscoveryError sw \<longrightarrow>
      fst (mockDiscoverNVMeTCPTargets sw synth n address login) = []
      \<and> errorContains (snd (mockDiscoverNVMeTCPTargets sw synth n address login)) ''induced''
      \<and> fst (mockDiscoverNVMeFCTargets sw synth n address login) = []
      \<and> errorContains (snd (mockDiscoverNVMeFCTargets sw synth n address login)) ''induced'')"
  by (simp add: mockDiscoverNVMeTCPTargets_def mockDiscoverNVMeFCTargets_def
      mockDiscoverTargets_def errorContains_def)

theorem mock_discover_cardinality_witness:
  "length (fst (mockDiscoverNVMeTCPTargets noFaults (\<lambda>i. emptyTarget) 5 ''1.1.1.1'' True)) = 5
   \<and> snd (mockDiscoverNVMeTCPTargets noFaults (\<lambda>i. emptyTarget) 5 ''1.1.1.1'' True) = None
   \<and> fst (mockDiscoverNVMeFCTargets (noFaults\<lparr>InduceDiscoveryError := True\<rparr>)
            (\<lambda>i. emptyTarget) 5 ''nn-0x11aaa111111a1a1a:pn-0x11aaa111111a1a1a'' False) = []
   \<and> errorContains (snd (mockDiscoverNVMeFCTargets (noFaults\<lparr>InduceDiscoveryError := True\<rparr>)
            (\<lambda>i. emptyTarget) 5 ''nn-0x11aaa111111a1a1a:pn-0x11aaa111111a1a1a'' False)) ''induced''"
  using mock_discover_cardinality [where sw = noFaults and synth = "\<lambda>i. emptyTarget" and n = 5
          and address = "''1.1.1.1''" and login = True]
        mock_discover_cardinality [where sw = "noFaults\<lparr>InduceDiscoveryError := True\<rparr>"
          and synth = "\<lambda>i. emptyTarget" and n = 5
          and address = "''nn-0x11aaa111111a1a1a:pn-0x11aaa111111a1a1a''" and login = False]
  by (simp add: noFaults_def)

section \<open>Discovery: more on the skip flag and the second copy\<close>





lemma discover_part_002_ok:
  "run (buildNVMeCommand nvme
          [NVMeCommand, ''discover'', ''-t'', ''tcp'', ''-a'', address, ''-s'', NVMePort]) = (out, None)
   \<Longrightarrow> discoverNVMeTCPTargets_part_002 tcpConst nvme run address login
         = (parseDiscoveryOutput_part_002 tcpConst out, None)"
  by (simp add: discoverNVMeTCPTargets_part_002_def Let_def)


section \<open>White space that is not ASCII\<close>

text \<open>
  The rune U+00A0 separates fields like a space does: a header written with it is a
  header, and a line that holds the entry-header literal, a space and U+00A0 has one
  field only.
\<close>

lemma Fields_nbsp:
  "Fields (''=====Discovery'' @ [CHR 0xC2, CHR 0xA0] @ ''Log Entry 0======'')
     = [''=====Discovery'', ''Log'', ''Entry'', ''0======'']
   \<and> Fields (''=====Discovery '' @ [CHR 0xC2, CHR 0xA0]) = [''=====Discovery'']
   \<and> Fields (''a'' @ [CHR 0xE2, CHR 0x80, CHR 0x83] @ ''b'' @ [CHR 0xE3, CHR 0x80, CHR 0x80]
              @ ''c'' @ [CHR 0xC3, CHR 0xA0] @ ''d'')
       = [''a'', ''b'', ''c'' @ [CHR 0xC3, CHR 0xA0] @ ''d'']"
  by code_simp

lemma nbsp_headers: "parseDiscoveryOutput nbspHeadersLog = [emptyTarget]"
  by code_simp

section \<open>Discovery: the end of the input\<close>

text \<open>
  In \<open>gonvme_tcp.go\<close> the loop ends holding the target of the final entry (the lines
  after the last header) and that entry's skip flag, and this target is appended to the
  targets appended at the headers if and only if the entry is not marked skip and its
  subsystem NQN is not empty.
\<close>

lemma final_entry_flush:
  assumes "run (buildNVMeCommand nvme
             [NVMeCommand, ''discover'', ''-t'', ''tcp'', ''-a'', address, ''-s'', NVMePort])
           = (out, None)"
  shows "fold processLine (Split out) initState =
           \<lparr>targets = boundaryTargets out, nvmeTarget = entryTarget (finalEntry out),
            entryCount = length (logEntries out), skipIteration = entrySkip (finalEntry out)\<rparr>
         \<and> fst (discoverNVMeTCPTargets nvme run address login) =
             boundaryTargets out
             @ (if \<not> entrySkip (finalEntry out) \<and> TargetNqn (entryTarget (finalEntry out)) \<noteq> []
                then [entryTarget (finalEntry out)] else [])"
  using assms
  by (simp add: discover_ok parseDiscoveryOutput_def loop_final Let_def)

text \<open>
  The copy of the second file appends the target in progress whatever it holds, so its
  result is never empty.
\<close>

lemma part_002_never_empty: "parseDiscoveryOutput_part_002 tcpConst out \<noteq> []"
  by (simp add: parseDiscoveryOutput_part_002_def Let_def)

lemma part_002_sample_log:
  "map TargetType (parseDiscoveryOutput_part_002 ''tcp'' sampleLog) = [''fc'', ''tcp'']"
  by code_simp

text \<open>
  C3. The end-of-input rule (append the final entry if and only if it is not marked
  skip and its NQN is not empty; never append an empty trailing target) holds in
  \<open>gonvme_tcp.go\<close> and fails in the copy of the second file. When the command succeeds
  and prints nothing, or prints only the first line of a log without records, the
  first returns no target and the second returns one target with every field empty,
  whatever the value of its transport constant.
\<close>

theorem part_002_appends_empty_target:
  "discoverNVMeTCPTargets plainClient (okRun []) ''1.1.1.1'' False = ([], None)
   \<and> discoverNVMeTCPTargets_part_002 tcpConst plainClient (okRun []) ''1.1.1.1'' False
       = ([emptyTarget], None)
   \<and> discoverNVMeTCPTargets plainClient (okRun logHeaderOnly) ''1.1.1.1'' False = ([], None)
   \<and> discoverNVMeTCPTargets_part_002 tcpConst plainClient (okRun logHeaderOnly) ''1.1.1.1'' False
       = ([emptyTarget], None)"
proof -
  have a: "parseDiscoveryOutput [] = []" by code_simp
  have b: "parseDiscoveryOutput_part_002 tcpConst [] = [emptyTarget]"
    by (simp add: parseDiscoveryOutput_part_002_def Split_def initState_def
        processLine_part_002_def Fields_def)
  have c: "parseDiscoveryOutput logHeaderOnly = []" by code_simp
  have l: "Split logHeaderOnly = [logHeaderOnly]" by code_simp
  have f: "Fields logHeaderOnly
             = [''Discovery'', ''Log'', ''Number'', ''of'', ''Records'', ''0,'', ''Generation'',
                ''counter'', ''2'']"
    by code_simp
  have d: "parseDiscoveryOutput_part_002 tcpConst logHeaderOnly = [emptyTarget]"
    by (simp add: parseDiscoveryOutput_part_002_def l f initState_def processLine_part_002_def
        setField_part_002_def setField_def Let_def)
  show ?thesis
    using a b c d
    by (simp add: discoverNVMeTCPTargets_def discoverNVMeTCPTargets_part_002_def okRun_def Let_def)
qed

section \<open>Discovery: entry boundaries\<close>




section \<open>Discovery: the transport filter\<close>




section \<open>Discovery: what a returned target holds\<close>

text \<open>
  C4 does not hold as it is stated. The parser never looks at the portal, and it looks
  at the NQN only when the input ends: a tcp entry with an NQN and no \<open>traddr:\<close> line
  is returned, with an empty portal.
\<close>

theorem discover_partial_target_counterexample:
  "fst (discoverNVMeTCPTargets plainClient (okRun noPortalLog) ''1.1.1.1'' False) =
     [\<lparr>Portal = [], TargetNqn = ''nqn.x'', TrType = [], AdrFam = [], SubType = [], Treq = [],
       PortID = [], TrsvcID = [], SecType = [], TargetType = ''tcp'', HostAdr = []\<rparr>]"
proof -
  have "parseDiscoveryOutput noPortalLog =
     [\<lparr>Portal = [], TargetNqn = ''nqn.x'', TrType = [], AdrFam = [], SubType = [], Treq = [],
       PortID = [], TrsvcID = [], SecType = [], TargetType = ''tcp'', HostAdr = []\<rparr>]"
    by code_simp
  then show ?thesis
    by (simp add: discoverNVMeTCPTargets_def okRun_def Let_def)
qed

text \<open>
  C4, as amended. When every entry of the log has a line of at least two fields whose
  first field is \<open>subnqn:\<close> and one whose first field is \<open>traddr:\<close> (the key and a
  value), and no such \<open>subnqn:\<close> line stands before the first header, every returned
  target has a non-empty NQN and a non-empty portal. (A value is never empty: it is
  joined from at least one non-empty field. A key that stands alone on its line is
  passed over and sets nothing.)
\<close>

theorem discover_complete_entries:
  assumes "run (buildNVMeCommand nvme
             [NVMeCommand, ''discover'', ''-t'', ''tcp'', ''-a'', address, ''-s'', NVMePort])
           = (out, None)"
    and "keyCount ''subnqn:'' (logPreamble out) = 0"
    and "list_all completeEntry (logEntries out)"
  shows "\<forall>t \<in> set (fst (discoverNVMeTCPTargets nvme run address login)).
           TargetNqn t \<noteq> [] \<and> Portal t \<noteq> []"
proof
  fix t
  assume "t \<in> set (fst (discoverNVMeTCPTargets nvme run address login))"
  then have "t \<in> set (parseDiscoveryOutput out)" using assms(1) by (simp add: discover_ok)
  then have "(\<exists>b \<in> set (logEntries out). t = entryTarget b \<and> \<not> entrySkip b)
         \<or> (logEntries out = [] \<and> t = entryTarget (logPreamble out)
              \<and> \<not> entrySkip (logPreamble out) \<and> TargetNqn t \<noteq> [])"
    by (rule returned_from_block)
  moreover have "TargetNqn (entryTarget (logPreamble out)) = []"
    using assms(2) by (rule entry_no_nqn)
  ultimately obtain b where b: "b \<in> set (logEntries out)" "t = entryTarget b" by auto
  from b(1) assms(3) have "completeEntry b" by (simp add: list_all_iff)
  then show "TargetNqn t \<noteq> [] \<and> Portal t \<noteq> []"
    using b(2) by (simp add: completeEntry_def entry_nqn entry_portal)
qed

theorem discover_complete_entries_witness:
  "keyCount ''subnqn:'' (logPreamble sampleLog) = 0
   \<and> list_all completeEntry (logEntries sampleLog)
   \<and> fst (discoverNVMeTCPTargets plainClient (okRun sampleLog) ''1.1.1.1'' False) = [sampleTarget]
   \<and> TargetNqn sampleTarget \<noteq> [] \<and> Portal sampleTarget \<noteq> []"
proof -
  have a: "keyCount ''subnqn:'' (logPreamble sampleLog) = 0" by code_simp
  have c: "list_all completeEntry (logEntries sampleLog)" by code_simp
  have p: "parseDiscoveryOutput sampleLog = [sampleTarget]" by code_simp
  have r: "okRun sampleLog (buildNVMeCommand plainClient
             [NVMeCommand, ''discover'', ''-t'', ''tcp'', ''-a'', ''1.1.1.1'', ''-s'', NVMePort])
           = (sampleLog, None)"
    by (simp add: okRun_def)
  have d: "fst (discoverNVMeTCPTargets plainClient (okRun sampleLog) ''1.1.1.1'' False) = [sampleTarget]"
    using discover_ok [where run = "okRun sampleLog" and nvme = plainClient
        and address = "''1.1.1.1''" and out = sampleLog and login = False] r p
    by simp
  show ?thesis
    using discover_complete_entries [where run = "okRun sampleLog" and nvme = plainClient
        and address = "''1.1.1.1''" and out = sampleLog and login = False]
      r a c d
    by simp
qed

section \<open>Discovery: input without entries\<close>

text \<open>
  C5 does not hold as it is stated for text made of entry headers only. With two
  headers and no field line, the first entry is closed by the second header and
  appended as it is: the result holds one target with every field empty.
\<close>

theorem discover_header_only_counterexample:
  "discoverNVMeTCPTargets plainClient (okRun twoHeadersLog) ''1.1.1.1'' False
     = ([emptyTarget], None)"
proof -
  have "parseDiscoveryOutput twoHeadersLog = [emptyTarget]" by code_simp
  then show ?thesis
    by (simp add: discoverNVMeTCPTargets_def okRun_def Let_def)
qed

text \<open>
  C5, as amended. When the command succeeded neither copy of the function returns an
  error, whatever the text. In \<open>gonvme_tcp.go\<close> the returned sequence is empty for
  every text with at most one entry header (a line of at least two fields whose first
  is the entry-header literal) and no line of at least two fields whose first is
  \<open>subnqn:\<close>: the empty text, text in which no line has a key the parser knows, the
  first line of the tool's output alone, one entry header alone.
\<close>

theorem discover_no_entries:
  assumes "run (buildNVMeCommand nvme
             [NVMeCommand, ''discover'', ''-t'', ''tcp'', ''-a'', address, ''-s'', NVMePort])
           = (out, None)"
  shows "snd (discoverNVMeTCPTargets nvme run address login) = None
         \<and> snd (discoverNVMeTCPTargets_part_002 tcpConst nvme run address login) = None
         \<and> (length (filter isHeader (Split out)) \<le> 1 \<and> keyCount ''subnqn:'' (Split out) = 0 \<longrightarrow>
              fst (discoverNVMeTCPTargets nvme run address login) = [])"
  using assms by (simp add: discover_ok discover_part_002_ok parse_few_headers)

theorem discover_no_entries_witness:
  "discoverNVMeTCPTargets plainClient (okRun []) ''1.1.1.1'' False = ([], None)
   \<and> discoverNVMeTCPTargets plainClient (okRun logHeaderOnly) ''1.1.1.1'' False = ([], None)
   \<and> discoverNVMeTCPTargets plainClient (okRun ''=====Discovery Log Entry 0======'') ''1.1.1.1'' False
       = ([], None)
   \<and> discoverNVMeTCPTargets plainClient (okRun ''no such thing'') ''1.1.1.1'' False = ([], None)"
proof -
  have a: "length (filter isHeader (Split [])) \<le> 1 \<and> keyCount ''subnqn:'' (Split []) = 0"
    by code_simp
  have b: "length (filter isHeader (Split logHeaderOnly)) \<le> 1
           \<and> keyCount ''subnqn:'' (Split logHeaderOnly) = 0"
    by code_simp
  have c: "length (filter isHeader (Split ''=====Discovery Log Entry 0======'')) \<le> 1
           \<and> keyCount ''subnqn:'' (Split ''=====Discovery Log Entry 0======'') = 0"
    by code_simp
  have d: "length (filter isHeader (Split ''no such thing'')) \<le> 1
           \<and> keyCount ''subnqn:'' (Split ''no such thing'') = 0"
    by code_simp
  have r: "okRun x (buildNVMeCommand plainClient
             [NVMeCommand, ''discover'', ''-t'', ''tcp'', ''-a'', ''1.1.1.1'', ''-s'', NVMePort])
           = (x, None)" for x
    by (simp add: okRun_def)
  show ?thesis
    using discover_no_entries [where run = "okRun []" and nvme = plainClient
          and address = "''1.1.1.1''" and out = "[]" and login = False and tcpConst = "''tcp''"]
      discover_no_entries [where run = "okRun logHeaderOnly" and nvme = plainClient
          and address = "''1.1.1.1''" and out = logHeaderOnly and login = False
          and tcpConst = "''tcp''"]
      discover_no_entries [where run = "okRun ''=====Discovery Log Entry 0======''"
          and nvme = plainClient and address = "''1.1.1.1''"
          and out = "''=====Discovery Log Entry 0======''" and login = False
          and tcpConst = "''tcp''"]
      discover_no_entries [where run = "okRun ''no such thing''" and nvme = plainClient
          and address = "''1.1.1.1''" and out = "''no such thing''" and login = False
          and tcpConst = "''tcp''"]
      r a b c d
    by (simp add: prod_eq_iff)
qed

end
